theory Spec2Isabelle
  imports Main
begin

section \<open>The telemetry data model\<close>

text \<open>
  An attribute set (\<open>pcommon.Map\<close>) is a sequence of key/value entries. A Go \<open>error\<close> is
  its message; \<open>None\<close> is the nil error.
\<close>

type_synonym pcommon_Map = "(string \<times> string) list"

type_synonym error = string

datatype level = DebugLevel | ErrorLevel

datatype zap_Field = ErrorField error | StringField string string

text \<open>One call of \<open>ap.logger.Debug\<close> or \<open>ap.logger.Error\<close>: level, message, field.\<close>

type_synonym log_entry = "level \<times> string \<times> zap_Field"

definition failedToProcessAttribute :: string where
  "failedToProcessAttribute = ''failed to process attributes''"

definition failedToProcessAttributeWithCustomRule :: string where
  "failedToProcessAttributeWithCustomRule =
     ''failed to process attributes with custom rule, will drop the metric''"

text \<open>
  The three interfaces of the processor. A method that mutates a \<open>pcommon.Map\<close> argument in
  place returns the new contents: \<open>Process\<close> returns the attributes, the resource attributes
  and the error. \<open>ShouldBeDropped\<close> reads the attributes and returns its verdict and its
  error. \<open>Stop\<close> acts on the state \<open>'w\<close> of the component it stops. During one processing
  call a component is the function that its method computes: the cache of the resolver,
  which a background task refreshes, is not modelled.
\<close>

type_synonym attributesMutator =
  "pcommon_Map \<Rightarrow> pcommon_Map \<Rightarrow> bool \<Rightarrow> pcommon_Map \<times> pcommon_Map \<times> error option"

type_synonym allowListMutator = "pcommon_Map \<Rightarrow> bool \<times> error option"

type_synonym ('c, 'w) stopper = "'c \<Rightarrow> 'w \<Rightarrow> error option \<times> 'w"

subsection \<open>Traces\<close>

record Span =
  Span_Name :: string
  Span_Attributes :: pcommon_Map

record ScopeSpans =
  Scope_Name :: string
  Spans :: "Span list"

record ResourceSpans =
  Resource_Attributes :: pcommon_Map
  ScopeSpans_of :: "ScopeSpans list"

type_synonym Traces = "ResourceSpans list"

subsection \<open>Metrics\<close>

text \<open>
  The four datapoint types share no supertype: each pairs an attribute set with a payload of
  its own type (a number; bucket counts; a scale and bucket counts; a count and a sum).
\<close>

record 'p DataPoint =
  DataPoint_Attributes :: pcommon_Map
  DataPoint_Payload :: 'p

type_synonym NumberDataPoint = "int DataPoint"
type_synonym HistogramDataPoint = "(nat list) DataPoint"
type_synonym ExponentialHistogramDataPoint = "(int \<times> nat list) DataPoint"
type_synonym SummaryDataPoint = "(nat \<times> int) DataPoint"

datatype MetricData =
    MetricTypeEmpty
  | MetricTypeGauge "NumberDataPoint list"
  | MetricTypeSum "NumberDataPoint list"
  | MetricTypeHistogram "HistogramDataPoint list"
  | MetricTypeExponentialHistogram "ExponentialHistogramDataPoint list"
  | MetricTypeSummary "SummaryDataPoint list"

record Metric =
  Metric_Name :: string
  Metric_Data :: MetricData

record ScopeMetrics =
  MScope_Name :: string
  Metrics_of :: "Metric list"

record ResourceMetrics =
  MResource_Attributes :: pcommon_Map
  ScopeMetrics_of :: "ScopeMetrics list"

type_synonym Metrics = "ResourceMetrics list"

section \<open>Configuration\<close>

text \<open>
  Modelled from the spec: the types of package \<open>appsignalsconfig\<close> and \<open>rules\<close>, which the
  processor only passes on. A rule has a selector, a list of clauses that each match one
  attribute key exactly or by a pattern, and an action.
\<close>

datatype matcher = Exact string | Pattern "string \<Rightarrow> bool"

datatype action = Replace string | Keep | Drop

record Rule =
  selector :: "(string \<times> matcher) list"
  rule_action :: action

record Config =
  Resolvers :: "string list"
  Rules :: "Rule list"

section \<open>The processor\<close>

record ('c, 'w) awsappsignalsprocessor =
  logger :: "log_entry list"
  config :: Config
  replaceActions :: attributesMutator
  allowlistMutators :: "allowListMutator list"
  metricMutators :: "attributesMutator list"
  traceMutators :: "attributesMutator list"
  stoppers :: "('c, 'w) stopper list"

text \<open>
  \<open>logger\<close> holds the entries written through the logger so far. \<open>replaceActions\<close> holds
  the \<open>Process\<close> method of the \<open>*rules.ReplaceActions\<close> the field points to. The pointers
  of the struct are taken to be set: \<open>logger\<close> and \<open>config\<close> by the factory that builds the
  processor, \<open>replaceActions\<close> by \<open>Start\<close>.
\<close>

subsection \<open>Start\<close>

text \<open>
  The constructors of the packages \<open>resolver\<close>, \<open>normalizer\<close> and \<open>rules\<close> are parameters.
  The resolver is both a mutator and a stopper. The logger handed to a constructor only
  lets the component write entries of its own, which are not modelled.
\<close>

record ('c, 'w) attributesResolver =
  resolver_Process :: attributesMutator
  resolver_Stop :: "('c, 'w) stopper"

record ('c, 'w) packages =
  NewAttributesResolver :: "string list \<Rightarrow> ('c, 'w) attributesResolver"
  NewAttributesNormalizer :: attributesMutator
  NewReplacer :: "Rule list \<Rightarrow> attributesMutator"
  NewKeeper :: "Rule list \<Rightarrow> allowListMutator"
  NewDropper :: "Rule list \<Rightarrow> allowListMutator"

definition Start ::
  "('c, 'w) packages \<Rightarrow> ('c, 'w) awsappsignalsprocessor \<Rightarrow>
     error option \<times> ('c, 'w) awsappsignalsprocessor" where
  "Start pk ap0 =
     (let attributesResolver = NewAttributesResolver pk (Resolvers (config ap0));
          ap1 = ap0\<lparr>stoppers := [resolver_Stop attributesResolver]\<rparr>;
          ap2 = ap1\<lparr>metricMutators := [resolver_Process attributesResolver]\<rparr>;
          attributesNormalizer = NewAttributesNormalizer pk;
          ap3 = ap2\<lparr>metricMutators :=
                  [resolver_Process attributesResolver, attributesNormalizer]\<rparr>;
          ap4 = ap3\<lparr>replaceActions := NewReplacer pk (Rules (config ap3))\<rparr>;
          ap5 = ap4\<lparr>traceMutators :=
                  [resolver_Process attributesResolver, attributesNormalizer,
                   replaceActions ap4]\<rparr>;
          keeper = NewKeeper pk (Rules (config ap5));
          dropper = NewDropper pk (Rules (config ap5));
          ap6 = ap5\<lparr>allowlistMutators := [keeper, dropper]\<rparr>
      in (None, ap6))"

subsection \<open>Shutdown\<close>

fun stopAll ::
  "('c, 'w) stopper list \<Rightarrow> 'c \<Rightarrow> 'w \<Rightarrow> log_entry list \<Rightarrow> 'w \<times> log_entry list" where
  "stopAll [] ctx w lg = (w, lg)"
| "stopAll (stopper # rest) ctx w lg =
     (case stopper ctx w of
        (err, w') \<Rightarrow>
          stopAll rest ctx w'
            (case err of
               None \<Rightarrow> lg
             | Some e \<Rightarrow> lg @ [(ErrorLevel, ''failed to stop'', ErrorField e)]))"

definition Shutdown ::
  "('c, 'w) awsappsignalsprocessor \<Rightarrow> 'c \<Rightarrow> 'w \<Rightarrow>
     error option \<times> ('c, 'w) awsappsignalsprocessor \<times> 'w" where
  "Shutdown ap ctx w =
     (case stopAll (stoppers ap) ctx w (logger ap) of
        (w', lg') \<Rightarrow> (None, ap\<lparr>logger := lg'\<rparr>, w'))"

subsection \<open>processTraces\<close>

text \<open>
  The loop \<open>for _, Mutator := range chain\<close> over one attribute set. An error is logged at
  debug level with the loop's message and the loop goes on.
\<close>

fun applyMutators ::
  "attributesMutator list \<Rightarrow> bool \<Rightarrow> string \<Rightarrow> pcommon_Map \<Rightarrow> pcommon_Map \<Rightarrow>
     log_entry list \<Rightarrow> pcommon_Map \<times> pcommon_Map \<times> log_entry list" where
  "applyMutators [] isTrace msg attrs res lg = (attrs, res, lg)"
| "applyMutators (Mutator # rest) isTrace msg attrs res lg =
     (case Mutator attrs res isTrace of
        (attrs', res', err) \<Rightarrow>
          applyMutators rest isTrace msg attrs' res'
            (case err of
               None \<Rightarrow> lg
             | Some e \<Rightarrow> lg @ [(DebugLevel, msg, ErrorField e)]))"

text \<open>The loop over \<open>k\<close>: the spans of one scope.\<close>

fun processSpans ::
  "attributesMutator list \<Rightarrow> Span list \<Rightarrow> pcommon_Map \<Rightarrow> log_entry list \<Rightarrow>
     Span list \<times> pcommon_Map \<times> log_entry list" where
  "processSpans ms [] res lg = ([], res, lg)"
| "processSpans ms (span # rest) res lg =
     (case applyMutators ms True ''failed to Process span'' (Span_Attributes span) res lg of
        (attrs', res', lg') \<Rightarrow>
          (case processSpans ms rest res' lg' of
             (rest', res'', lg'') \<Rightarrow>
               (span\<lparr>Span_Attributes := attrs'\<rparr> # rest', res'', lg'')))"

text \<open>The loop over \<open>j\<close>: the scopes of one resource.\<close>

fun processScopeSpans ::
  "attributesMutator list \<Rightarrow> ScopeSpans list \<Rightarrow> pcommon_Map \<Rightarrow> log_entry list \<Rightarrow>
     ScopeSpans list \<times> pcommon_Map \<times> log_entry list" where
  "processScopeSpans ms [] res lg = ([], res, lg)"
| "processScopeSpans ms (ils # rest) res lg =
     (case processSpans ms (Spans ils) res lg of
        (spans', res', lg') \<Rightarrow>
          (case processScopeSpans ms rest res' lg' of
             (rest', res'', lg'') \<Rightarrow> (ils\<lparr>Spans := spans'\<rparr> # rest', res'', lg'')))"

text \<open>The loop over \<open>i\<close>: the resources of the batch.\<close>

fun processResourceSpans ::
  "attributesMutator list \<Rightarrow> ResourceSpans list \<Rightarrow> log_entry list \<Rightarrow>
     ResourceSpans list \<times> log_entry list" where
  "processResourceSpans ms [] lg = ([], lg)"
| "processResourceSpans ms (rs # rest) lg =
     (case processScopeSpans ms (ScopeSpans_of rs) (Resource_Attributes rs) lg of
        (ilss', res', lg') \<Rightarrow>
          (case processResourceSpans ms rest lg' of
             (rest', lg'') \<Rightarrow>
               (rs\<lparr>Resource_Attributes := res', ScopeSpans_of := ilss'\<rparr> # rest', lg'')))"

definition processTraces ::
  "('c, 'w) awsappsignalsprocessor \<Rightarrow> 'c \<Rightarrow> Traces \<Rightarrow>
     Traces \<times> error option \<times> ('c, 'w) awsappsignalsprocessor" where
  "processTraces ap ctx td =
     (case processResourceSpans (traceMutators ap) td (logger ap) of
        (td', lg') \<Rightarrow> (td', None, ap\<lparr>logger := lg'\<rparr>))"

subsection \<open>processMetricAttributes\<close>

text \<open>The first loop of a branch: every datapoint goes through the mutate-phase chain.\<close>

fun mutateDataPoints ::
  "attributesMutator list \<Rightarrow> 'p DataPoint list \<Rightarrow> pcommon_Map \<Rightarrow> log_entry list \<Rightarrow>
     'p DataPoint list \<times> pcommon_Map \<times> log_entry list" where
  "mutateDataPoints ms [] res lg = ([], res, lg)"
| "mutateDataPoints ms (d # rest) res lg =
     (case applyMutators ms False failedToProcessAttribute (DataPoint_Attributes d) res lg of
        (attrs', res', lg') \<Rightarrow>
          (case mutateDataPoints ms rest res' lg' of
             (rest', res'', lg'') \<Rightarrow>
               (d\<lparr>DataPoint_Attributes := attrs'\<rparr> # rest', res'', lg'')))"

text \<open>
  The function handed to \<open>RemoveIf\<close>: the filter mutators are asked in order. An error is
  logged; the verdict returned with it is used all the same. The first verdict \<open>true\<close>
  ends the loop.
\<close>

fun shouldRemove ::
  "allowListMutator list \<Rightarrow> pcommon_Map \<Rightarrow> log_entry list \<Rightarrow> bool \<times> log_entry list" where
  "shouldRemove [] attrs lg = (False, lg)"
| "shouldRemove (mutator # rest) attrs lg =
     (case mutator attrs of
        (shouldBeDropped, err) \<Rightarrow>
          (let lg' = (case err of
                        None \<Rightarrow> lg
                      | Some e \<Rightarrow>
                          lg @ [(DebugLevel, failedToProcessAttributeWithCustomRule,
                                 ErrorField e)])
           in if shouldBeDropped then (True, lg') else shouldRemove rest attrs lg'))"

text \<open>
  \<open>RemoveIf\<close> of a pdata slice: the function is called once on every element, in order, and
  the elements it rejects are taken out; the others keep their order.
\<close>

fun RemoveIf ::
  "('a \<Rightarrow> log_entry list \<Rightarrow> bool \<times> log_entry list) \<Rightarrow> 'a list \<Rightarrow> log_entry list \<Rightarrow>
     'a list \<times> log_entry list" where
  "RemoveIf f [] lg = ([], lg)"
| "RemoveIf f (d # rest) lg =
     (case f d lg of
        (remove, lg') \<Rightarrow>
          (case RemoveIf f rest lg' of
             (rest', lg'') \<Rightarrow> (if remove then rest' else d # rest', lg'')))"

text \<open>The last loop of a branch: \<open>ap.replaceActions.Process\<close> on every datapoint left.\<close>

fun replaceDataPoints ::
  "attributesMutator \<Rightarrow> 'p DataPoint list \<Rightarrow> pcommon_Map \<Rightarrow> log_entry list \<Rightarrow>
     'p DataPoint list \<times> pcommon_Map \<times> log_entry list" where
  "replaceDataPoints replacer [] res lg = ([], res, lg)"
| "replaceDataPoints replacer (d # rest) res lg =
     (case replacer (DataPoint_Attributes d) res False of
        (attrs', res', err) \<Rightarrow>
          (case replaceDataPoints replacer rest res'
                  (case err of
                     None \<Rightarrow> lg
                   | Some e \<Rightarrow> lg @ [(DebugLevel, failedToProcessAttribute, ErrorField e)]) of
             (rest', res'', lg'') \<Rightarrow>
               (d\<lparr>DataPoint_Attributes := attrs'\<rparr> # rest', res'', lg'')))"

text \<open>
  The five branches of the switch are written out as in the source, one per metric type;
  any other type is logged and left alone.
\<close>

definition processMetricAttributes ::
  "('c, 'w) awsappsignalsprocessor \<Rightarrow> 'c \<Rightarrow> Metric \<Rightarrow> pcommon_Map \<Rightarrow> log_entry list \<Rightarrow>
     Metric \<times> pcommon_Map \<times> log_entry list" where
  "processMetricAttributes ap ctx m resourceAttribes lg =
     (case Metric_Data m of
        MetricTypeGauge dps \<Rightarrow>
          (case mutateDataPoints (metricMutators ap) dps resourceAttribes lg of
             (dps1, res1, lg1) \<Rightarrow>
               (case RemoveIf (\<lambda>d. shouldRemove (allowlistMutators ap) (DataPoint_Attributes d))
                       dps1 lg1 of
                  (dps2, lg2) \<Rightarrow>
                    (case replaceDataPoints (replaceActions ap) dps2 res1 lg2 of
                       (dps3, res3, lg3) \<Rightarrow>
                         (m\<lparr>Metric_Data := MetricTypeGauge dps3\<rparr>, res3, lg3))))
      | MetricTypeSum dps \<Rightarrow>
          (case mutateDataPoints (metricMutators ap) dps resourceAttribes lg of
             (dps1, res1, lg1) \<Rightarrow>
               (case RemoveIf (\<lambda>d. shouldRemove (allowlistMutators ap) (DataPoint_Attributes d))
                       dps1 lg1 of
                  (dps2, lg2) \<Rightarrow>
                    (case replaceDataPoints (replaceActions ap) dps2 res1 lg2 of
                       (dps3, res3, lg3) \<Rightarrow>
                         (m\<lparr>Metric_Data := MetricTypeSum dps3\<rparr>, res3, lg3))))
      | MetricTypeHistogram dps \<Rightarrow>
          (case mutateDataPoints (metricMutators ap) dps resourceAttribes lg of
             (dps1, res1, lg1) \<Rightarrow>
               (case RemoveIf (\<lambda>d. shouldRemove (allowlistMutators ap) (DataPoint_Attributes d))
                       dps1 lg1 of
                  (dps2, lg2) \<Rightarrow>
                    (case replaceDataPoints (replaceActions ap) dps2 res1 lg2 of
                       (dps3, res3, lg3) \<Rightarrow>
                         (m\<lparr>Metric_Data := MetricTypeHistogram dps3\<rparr>, res3, lg3))))
      | MetricTypeExponentialHistogram dps \<Rightarrow>
          (case mutateDataPoints (metricMutators ap) dps resourceAttribes lg of
             (dps1, res1, lg1) \<Rightarrow>
               (case RemoveIf (\<lambda>d. shouldRemove (allowlistMutators ap) (DataPoint_Attributes d))
                       dps1 lg1 of
                  (dps2, lg2) \<Rightarrow>
                    (case replaceDataPoints (replaceActions ap) dps2 res1 lg2 of
                       (dps3, res3, lg3) \<Rightarrow>
                         (m\<lparr>Metric_Data := MetricTypeExponentialHistogram dps3\<rparr>, res3, lg3))))
      | MetricTypeSummary dps \<Rightarrow>
          (case mutateDataPoints (metricMutators ap) dps resourceAttribes lg of
             (dps1, res1, lg1) \<Rightarrow>
               (case RemoveIf (\<lambda>d. shouldRemove (allowlistMutators ap) (DataPoint_Attributes d))
                       dps1 lg1 of
                  (dps2, lg2) \<Rightarrow>
                    (case replaceDataPoints (replaceActions ap) dps2 res1 lg2 of
                       (dps3, res3, lg3) \<Rightarrow>
                         (m\<lparr>Metric_Data := MetricTypeSummary dps3\<rparr>, res3, lg3))))
      | MetricTypeEmpty \<Rightarrow>
          (m, resourceAttribes,
           lg @ [(DebugLevel, ''Ignore unknown metric type'', StringField ''type'' ''Empty'')]))"

subsection \<open>processMetrics\<close>

text \<open>The loop over \<open>k\<close>: the metrics of one scope.\<close>

fun processMetricList ::
  "('c, 'w) awsappsignalsprocessor \<Rightarrow> 'c \<Rightarrow> Metric list \<Rightarrow> pcommon_Map \<Rightarrow> log_entry list \<Rightarrow>
     Metric list \<times> pcommon_Map \<times> log_entry list" where
  "processMetricList ap ctx [] res lg = ([], res, lg)"
| "processMetricList ap ctx (m # rest) res lg =
     (case processMetricAttributes ap ctx m res lg of
        (m', res', lg') \<Rightarrow>
          (case processMetricList ap ctx rest res' lg' of
             (rest', res'', lg'') \<Rightarrow> (m' # rest', res'', lg'')))"

text \<open>The loop over \<open>j\<close>: the scopes of one resource.\<close>

fun processScopeMetrics ::
  "('c, 'w) awsappsignalsprocessor \<Rightarrow> 'c \<Rightarrow> ScopeMetrics list \<Rightarrow> pcommon_Map \<Rightarrow>
     log_entry list \<Rightarrow> ScopeMetrics list \<times> pcommon_Map \<times> log_entry list" where
  "processScopeMetrics ap ctx [] res lg = ([], res, lg)"
| "processScopeMetrics ap ctx (ils # rest) res lg =
     (case processMetricList ap ctx (Metrics_of ils) res lg of
        (metrics', res', lg') \<Rightarrow>
          (case processScopeMetrics ap ctx rest res' lg' of
             (rest', res'', lg'') \<Rightarrow> (ils\<lparr>Metrics_of := metrics'\<rparr> # rest', res'', lg'')))"

text \<open>The loop over \<open>i\<close>: the resources of the batch.\<close>

fun processResourceMetrics ::
  "('c, 'w) awsappsignalsprocessor \<Rightarrow> 'c \<Rightarrow> ResourceMetrics list \<Rightarrow> log_entry list \<Rightarrow>
     ResourceMetrics list \<times> log_entry list" where
  "processResourceMetrics ap ctx [] lg = ([], lg)"
| "processResourceMetrics ap ctx (rs # rest) lg =
     (case processScopeMetrics ap ctx (ScopeMetrics_of rs) (MResource_Attributes rs) lg of
        (ilms', res', lg') \<Rightarrow>
          (case processResourceMetrics ap ctx rest lg' of
             (rest', lg'') \<Rightarrow>
               (rs\<lparr>MResource_Attributes := res', ScopeMetrics_of := ilms'\<rparr> # rest', lg'')))"

definition processMetrics ::
  "('c, 'w) awsappsignalsprocessor \<Rightarrow> 'c \<Rightarrow> Metrics \<Rightarrow>
     Metrics \<times> error option \<times> ('c, 'w) awsappsignalsprocessor" where
  "processMetrics ap ctx md =
     (case processResourceMetrics ap ctx md (logger ap) of
        (md', lg') \<Rightarrow> (md', None, ap\<lparr>logger := lg'\<rparr>))"

section \<open>The ec2tagger translator\<close>

text \<open>
  \<open>time.Duration\<close> counts nanoseconds. The fields of \<open>ec2tagger.Config\<close> are those that
  \<open>Translate\<close> assigns. The config a factory creates is an \<open>ec2tagger.Config\<close> behind a
  pointer, which may be nil, or a config of another type.
\<close>

type_synonym Duration = int

definition Minute :: Duration where
  "Minute = 60 * 1000000000"

record component_ID =
  ID_Type :: string
  ID_Name :: string

record ec2tagger_Config =
  RefreshTagsInterval :: Duration
  RefreshVolumesInterval :: Duration
  EC2MetadataTags :: "string list"
  EC2InstanceTagKeys :: "string list"
  EBSDeviceKeys :: "string list"
  DiskDeviceTagKey :: string
  MiddlewareID :: "component_ID option"
  IMDSRetries :: int

datatype component_Config =
    Ec2taggerConfig ec2tagger_Config
  | NilEc2taggerConfig
  | OtherConfig

record Factory =
  Factory_Type :: string
  CreateDefaultConfig :: component_Config

record translator =
  name :: string
  factory :: Factory

datatype MissingKeyError = MissingKeyError component_ID string

datatype 'a outcome = Panics | Returns 'a

text \<open>
  What \<open>Translate\<close> uses of the packages \<open>confmap\<close>, \<open>common\<close>, \<open>ec2tagger\<close>, \<open>agent\<close>,
  \<open>agenthealth\<close> and \<open>retryer\<close> is a parameter: the two queries on a configuration map of
  type \<open>'k\<close>, the key constants and \<open>ConfigKey\<close>, which joins them, the table of supported
  dimensions in the order the \<open>range\<close> loop visits it, and the unmarshalling of the global
  credentials into a config.
\<close>

record 'k packages_of_Translate =
  IsSet :: "'k \<Rightarrow> string \<Rightarrow> bool"
  GetString :: "'k \<Rightarrow> string \<Rightarrow> string \<times> bool"
  ConfigKey :: "string list \<Rightarrow> string"
  MetricsKey :: string
  AppendDimensionsKey :: string
  MetricsCollectedKey :: string
  DiskKey :: string
  SupportedAppendDimensions :: "(string \<times> string) list"
  AttributeVolumeId :: string
  ValueAppendDimensionVolumeId :: string
  UnmarshalCredentials :: "ec2tagger_Config \<Rightarrow> ec2tagger_Config"
  StatusCodeID :: component_ID
  GetDefaultRetryNumber :: int

definition Ec2taggerKey :: "'k packages_of_Translate \<Rightarrow> string" where
  "Ec2taggerKey pk = ConfigKey pk [MetricsKey pk, AppendDimensionsKey pk]"

definition ID :: "translator \<Rightarrow> component_ID" where
  "ID t = \<lparr>ID_Type = Factory_Type (factory t), ID_Name = name t\<rparr>"

text \<open>The loop \<open>for k, v := range ec2tagger.SupportedAppendDimensions\<close>.\<close>

fun appendSupportedDimensions ::
  "'k packages_of_Translate \<Rightarrow> 'k \<Rightarrow> (string \<times> string) list \<Rightarrow> ec2tagger_Config \<Rightarrow>
     ec2tagger_Config" where
  "appendSupportedDimensions pk conf [] cfg = cfg"
| "appendSupportedDimensions pk conf ((k, v) # rest) cfg =
     (case GetString pk conf (ConfigKey pk [Ec2taggerKey pk, k]) of
        (value, ok) \<Rightarrow>
          appendSupportedDimensions pk conf rest
            (if ok \<and> v = value then
               (if k = ''AutoScalingGroupName''
                then cfg\<lparr>EC2InstanceTagKeys := EC2InstanceTagKeys cfg @ [k]\<rparr>
                else cfg\<lparr>EC2MetadataTags := EC2MetadataTags cfg @ [k]\<rparr>)
             else cfg))"

definition volumeIdKey :: "'k packages_of_Translate \<Rightarrow> string" where
  "volumeIdKey pk =
     ConfigKey pk [MetricsKey pk, MetricsCollectedKey pk, DiskKey pk, AppendDimensionsKey pk,
                   AttributeVolumeId pk]"

definition Translate ::
  "'k packages_of_Translate \<Rightarrow> translator \<Rightarrow> 'k option \<Rightarrow>
     (ec2tagger_Config option \<times> MissingKeyError option) outcome" where
  "Translate pk t conf =
     (case conf of
        None \<Rightarrow> Returns (None, Some (MissingKeyError (ID t) (Ec2taggerKey pk)))
      | Some c \<Rightarrow>
          if \<not> IsSet pk c (Ec2taggerKey pk)
          then Returns (None, Some (MissingKeyError (ID t) (Ec2taggerKey pk)))
          else
            (case CreateDefaultConfig (factory t) of
               OtherConfig \<Rightarrow> Panics
             | NilEc2taggerConfig \<Rightarrow> Panics
             | Ec2taggerConfig cfg0 \<Rightarrow>
                 (let cfg1 = UnmarshalCredentials pk cfg0;
                      cfg2 = appendSupportedDimensions pk c (SupportedAppendDimensions pk) cfg1;
                      cfg3 = cfg2\<lparr>RefreshTagsInterval := 0\<rparr>;
                      cfg4 = cfg3\<lparr>RefreshVolumesInterval := 0\<rparr>;
                      cfg5 = (case GetString pk c (volumeIdKey pk) of
                                (value, ok) \<Rightarrow>
                                  if ok \<and> value = ValueAppendDimensionVolumeId pk
                                  then cfg4\<lparr>RefreshVolumesInterval := 5 * Minute,
                                            EBSDeviceKeys := [''*''],
                                            DiskDeviceTagKey := ''device''\<rparr>
                                  else cfg4);
                      cfg6 = cfg5\<lparr>MiddlewareID := Some (StatusCodeID pk)\<rparr>;
                      cfg7 = cfg6\<lparr>IMDSRetries := GetDefaultRetryNumber pk\<rparr>
                  in Returns (Some cfg7, None))))"

section \<open>The rule engine's filters\<close>

text \<open>
  Modelled from the spec: the selector matching of package \<open>rules\<close>, which is not among
  the sources. A clause matches an attribute set by the exact value or by the pattern of
  one key; a rule matches when all its selector clauses match.
\<close>

fun matchesClause :: "pcommon_Map \<Rightarrow> string \<times> matcher \<Rightarrow> bool" where
  "matchesClause attrs (k, Exact v) = (map_of attrs k = Some v)"
| "matchesClause attrs (k, Pattern p) =
     (case map_of attrs k of None \<Rightarrow> False | Some v \<Rightarrow> p v)"

definition matchesRule :: "pcommon_Map \<Rightarrow> Rule \<Rightarrow> bool" where
  "matchesRule attrs r = list_all (matchesClause attrs) (selector r)"

definition keepRules :: "Rule list \<Rightarrow> Rule list" where
  "keepRules rs = filter (\<lambda>r. rule_action r = Keep) rs"

definition dropRules :: "Rule list \<Rightarrow> Rule list" where
  "dropRules rs = filter (\<lambda>r. rule_action r = Drop) rs"

definition matchesAllowRule :: "Rule list \<Rightarrow> pcommon_Map \<Rightarrow> bool" where
  "matchesAllowRule rs attrs = list_ex (matchesRule attrs) (keepRules rs)"

definition matchesDenyRule :: "Rule list \<Rightarrow> pcommon_Map \<Rightarrow> bool" where
  "matchesDenyRule rs attrs = list_ex (matchesRule attrs) (dropRules rs)"

text \<open>
  Modelled from the spec: \<open>ShouldBeDropped\<close> of the Keeper of package \<open>rules\<close>, which is
  not among the sources. The Keeper signals drop when at least one allow-rule is
  configured and the attribute set matches none; with no allow-rule it never does.
\<close>

definition Keeper :: "Rule list \<Rightarrow> allowListMutator" where
  "Keeper rs attrs = (keepRules rs \<noteq> [] \<and> \<not> matchesAllowRule rs attrs, None)"

text \<open>
  Modelled from the spec: \<open>ShouldBeDropped\<close> of the Dropper of package \<open>rules\<close>, which is
  not among the sources. The Dropper signals drop when a deny-rule matches.
\<close>

definition Dropper :: "Rule list \<Rightarrow> allowListMutator" where
  "Dropper rs attrs = (matchesDenyRule rs attrs, None)"

section \<open>Reference definitions\<close>

text \<open>The errors of the failed stops, in the order of the stoppers.\<close>

fun stopErrors :: "('c, 'w) stopper list \<Rightarrow> 'c \<Rightarrow> 'w \<Rightarrow> error list" where
  "stopErrors [] ctx w = []"
| "stopErrors (stopper # rest) ctx w =
     (case stopper ctx w of
        (None, w') \<Rightarrow> stopErrors rest ctx w'
      | (Some e, w') \<Rightarrow> e # stopErrors rest ctx w')"

text \<open>The shape of a trace batch: how many spans each scope holds, and which.\<close>

definition spanCounts :: "Traces \<Rightarrow> nat list list" where
  "spanCounts td = map (\<lambda>rs. map (\<lambda>ils. length (Spans ils)) (ScopeSpans_of rs)) td"

definition spanNames :: "Traces \<Rightarrow> (string \<times> string list) list list" where
  "spanNames td =
     map (\<lambda>rs. map (\<lambda>ils. (Scope_Name ils, map Span_Name (Spans ils))) (ScopeSpans_of rs)) td"

text \<open>
  Start as the spec words it: only the final, effective composition of the chains, without
  the first assignment of the metric chain.
\<close>

definition Start_effective ::
  "('c, 'w) packages \<Rightarrow> ('c, 'w) awsappsignalsprocessor \<Rightarrow>
     error option \<times> ('c, 'w) awsappsignalsprocessor" where
  "Start_effective pk ap =
     (None,
      ap\<lparr>replaceActions := NewReplacer pk (Rules (config ap)),
         allowlistMutators := [NewKeeper pk (Rules (config ap)), NewDropper pk (Rules (config ap))],
         metricMutators :=
           [resolver_Process (NewAttributesResolver pk (Resolvers (config ap))),
            NewAttributesNormalizer pk],
         traceMutators :=
           [resolver_Process (NewAttributesResolver pk (Resolvers (config ap))),
            NewAttributesNormalizer pk,
            NewReplacer pk (Rules (config ap))],
         stoppers := [resolver_Stop (NewAttributesResolver pk (Resolvers (config ap)))]\<rparr>)"



definition keepsResource :: "attributesMutator \<Rightarrow> bool" where
  "keepsResource m = (\<forall>attrs res isTrace. fst (snd (m attrs res isTrace)) = res)"

text \<open>
  One unit through a whole chain: every mutator is applied, in order, to what the one
  before it left.
\<close>

definition chainStep ::
  "attributesMutator list \<Rightarrow> bool \<Rightarrow> pcommon_Map \<times> pcommon_Map \<Rightarrow> pcommon_Map \<times> pcommon_Map" where
  "chainStep ms isTrace p =
     foldl (\<lambda>q m. (fst (m (fst q) (snd q) isTrace), fst (snd (m (fst q) (snd q) isTrace)))) p ms"

text \<open>A step on every element of a list, in order, passing the resource attributes along.\<close>

fun forEach :: "('a \<Rightarrow> 's \<Rightarrow> 'a \<times> 's) \<Rightarrow> 'a list \<Rightarrow> 's \<Rightarrow> 'a list \<times> 's" where
  "forEach f [] s = ([], s)"
| "forEach f (x # xs) s =
     (case f x s of (x', s') \<Rightarrow> (case forEach f xs s' of (xs', s'') \<Rightarrow> (x' # xs', s'')))"

definition mutateStep ::
  "attributesMutator list \<Rightarrow> 'p DataPoint \<Rightarrow> pcommon_Map \<Rightarrow> 'p DataPoint \<times> pcommon_Map" where
  "mutateStep ms d res =
     (d\<lparr>DataPoint_Attributes := fst (chainStep ms False (DataPoint_Attributes d, res))\<rparr>,
      snd (chainStep ms False (DataPoint_Attributes d, res)))"

definition signalledDrop :: "allowListMutator list \<Rightarrow> pcommon_Map \<Rightarrow> bool" where
  "signalledDrop ms attrs = list_ex (\<lambda>m. fst (m attrs)) ms"

definition replaceStep ::
  "attributesMutator \<Rightarrow> 'p DataPoint \<Rightarrow> pcommon_Map \<Rightarrow> 'p DataPoint \<times> pcommon_Map" where
  "replaceStep replacer d res =
     (d\<lparr>DataPoint_Attributes := fst (replacer (DataPoint_Attributes d) res False)\<rparr>,
      fst (snd (replacer (DataPoint_Attributes d) res False)))"

text \<open>
  The three phases in the spec's order: the chain on every datapoint, then the filter, then
  the replacer on the survivors.
\<close>

definition mutateFilterReplace ::
  "('c, 'w) awsappsignalsprocessor \<Rightarrow> 'p DataPoint list \<Rightarrow> pcommon_Map \<Rightarrow>
     'p DataPoint list \<times> pcommon_Map" where
  "mutateFilterReplace ap dps res =
     (case forEach (mutateStep (metricMutators ap)) dps res of
        (mutated, res1) \<Rightarrow>
          forEach (replaceStep (replaceActions ap))
            (filter (\<lambda>d. \<not> signalledDrop (allowlistMutators ap) (DataPoint_Attributes d)) mutated)
            res1)"

text \<open>The attribute sets of a metric's datapoints, whatever their kind.\<close>

fun attributeSets :: "MetricData \<Rightarrow> pcommon_Map list" where
  "attributeSets MetricTypeEmpty = []"
| "attributeSets (MetricTypeGauge dps) = map DataPoint_Attributes dps"
| "attributeSets (MetricTypeSum dps) = map DataPoint_Attributes dps"
| "attributeSets (MetricTypeHistogram dps) = map DataPoint_Attributes dps"
| "attributeSets (MetricTypeExponentialHistogram dps) = map DataPoint_Attributes dps"
| "attributeSets (MetricTypeSummary dps) = map DataPoint_Attributes dps"

text \<open>
  A datapoint without its payload, and what a branch does as seen on the attribute sets
  alone: the three loops on payload-free datapoints, with the attribute sets left, the
  resource attributes and the log.
\<close>

definition erase :: "'p DataPoint \<Rightarrow> unit DataPoint" where
  "erase d = \<lparr>DataPoint_Attributes = DataPoint_Attributes d, DataPoint_Payload = ()\<rparr>"

definition attributeOutcome ::
  "('c, 'w) awsappsignalsprocessor \<Rightarrow> pcommon_Map list \<Rightarrow> pcommon_Map \<Rightarrow> log_entry list \<Rightarrow>
     pcommon_Map list \<times> pcommon_Map \<times> log_entry list" where
  "attributeOutcome ap sets res lg =
     (case mutateDataPoints (metricMutators ap)
             (map (\<lambda>a. \<lparr>DataPoint_Attributes = a, DataPoint_Payload = ()\<rparr>) sets) res lg of
        (dps1, res1, lg1) \<Rightarrow>
          (case RemoveIf (\<lambda>d. shouldRemove (allowlistMutators ap) (DataPoint_Attributes d))
                  dps1 lg1 of
             (dps2, lg2) \<Rightarrow>
               (case replaceDataPoints (replaceActions ap) dps2 res1 lg2 of
                  (dps3, res3, lg3) \<Rightarrow> (map DataPoint_Attributes dps3, res3, lg3))))"

text \<open>
  The two tests of \<open>Translate\<close>: whether the append-dimensions key is missing, and whether
  the volume-id dimension of the disk section is configured, that is, set to the value
  \<open>ValueAppendDimensionVolumeId\<close>.
\<close>

definition keyMissing :: "'k packages_of_Translate \<Rightarrow> 'k option \<Rightarrow> bool" where
  "keyMissing pk conf =
     (case conf of None \<Rightarrow> True | Some c \<Rightarrow> \<not> IsSet pk c (Ec2taggerKey pk))"

definition volumeIdConfigured :: "'k packages_of_Translate \<Rightarrow> 'k option \<Rightarrow> bool" where
  "volumeIdConfigured pk conf =
     (case conf of
        None \<Rightarrow> False
      | Some c \<Rightarrow>
          snd (GetString pk c (volumeIdKey pk)) \<and>
          fst (GetString pk c (volumeIdKey pk)) = ValueAppendDimensionVolumeId pk)"

section \<open>Example inputs\<close>

text \<open>
  The spec's end-to-end example: a resolver whose cache is cold, a normalizer that rewrites
  \<open>ip\<close> to \<open>unresolved\<close>, a replacer without a matching rule, and a deny-rule on
  \<open>ip = unresolved\<close>. Stopping the resolver records its name.
\<close>

definition unchanged :: attributesMutator where
  "unchanged = (\<lambda>attrs res isTrace. (attrs, res, None))"

definition failing :: attributesMutator where
  "failing = (\<lambda>attrs res isTrace. (attrs @ [(''seen'', ''yes'')], res, Some ''lookup failed''))"

definition unresolved_ip :: attributesMutator where
  "unresolved_ip =
     (\<lambda>attrs res isTrace.
        (map (\<lambda>kv. if fst kv = ''ip'' then (fst kv, ''unresolved'') else kv) attrs, res, None))"

definition cold_resolver :: "(unit, string list) attributesResolver" where
  "cold_resolver =
     \<lparr>resolver_Process = unchanged, resolver_Stop = (\<lambda>ctx w. (None, w @ [''resolver'']))\<rparr>"

definition example_packages :: "(unit, string list) packages" where
  "example_packages =
     \<lparr>NewAttributesResolver = (\<lambda>kinds. cold_resolver),
      NewAttributesNormalizer = unresolved_ip,
      NewReplacer = (\<lambda>rs. unchanged),
      NewKeeper = Keeper,
      NewDropper = Dropper\<rparr>"

definition new_processor :: "Rule list \<Rightarrow> (unit, string list) awsappsignalsprocessor" where
  "new_processor rs =
     \<lparr>logger = [], config = \<lparr>Resolvers = [], Rules = rs\<rparr>, replaceActions = unchanged,
      allowlistMutators = [], metricMutators = [], traceMutators = [], stoppers = []\<rparr>"

definition drop_unresolved :: Rule where
  "drop_unresolved = \<lparr>selector = [(''ip'', Exact ''unresolved'')], rule_action = Drop\<rparr>"

definition example_processor :: "(unit, string list) awsappsignalsprocessor" where
  "example_processor = snd (Start example_packages (new_processor [drop_unresolved]))"

definition dp1 :: NumberDataPoint where
  "dp1 = \<lparr>DataPoint_Attributes = [(''ip'', ''10.0.0.5'')], DataPoint_Payload = 1\<rparr>"

definition dp2 :: NumberDataPoint where
  "dp2 = \<lparr>DataPoint_Attributes = [(''ip'', ''10.0.0.9'')], DataPoint_Payload = 2\<rparr>"

definition dp3 :: NumberDataPoint where
  "dp3 = \<lparr>DataPoint_Attributes = [(''host'', ''a'')], DataPoint_Payload = 3\<rparr>"

definition example_gauge :: Metric where
  "example_gauge = \<lparr>Metric_Name = ''latency'', Metric_Data = MetricTypeGauge [dp1, dp3, dp2]\<rparr>"

definition example_metrics :: Metrics where
  "example_metrics =
     [\<lparr>MResource_Attributes = [(''service'', ''checkout'')],
       ScopeMetrics_of = [\<lparr>MScope_Name = ''scope'', Metrics_of = [example_gauge]\<rparr>]\<rparr>]"

definition example_traces :: Traces where
  "example_traces =
     [\<lparr>Resource_Attributes = [(''service'', ''checkout'')],
       ScopeSpans_of =
         [\<lparr>Scope_Name = ''scope'',
           Spans = [\<lparr>Span_Name = ''GET'', Span_Attributes = [(''ip'', ''10.0.0.5'')]\<rparr>,
                    \<lparr>Span_Name = ''PUT'', Span_Attributes = [(''host'', ''a'')]\<rparr>]\<rparr>]\<rparr>]"

text \<open>
  A chain whose first mutator fails on every unit, a histogram with the attribute sets of
  the gauge, an allow-rule and a deny-rule that both match one datapoint, two filters that
  return an error, one with the verdict \<open>true\<close> and one with \<open>false\<close>, and a filter
  without errors.
\<close>

definition failing_processor :: "(unit, string list) awsappsignalsprocessor" where
  "failing_processor =
     example_processor\<lparr>traceMutators := [failing, unresolved_ip],
                       metricMutators := [failing, unresolved_ip],
                       replaceActions := failing\<rparr>"

definition example_histogram :: Metric where
  "example_histogram =
     \<lparr>Metric_Name = ''sizes'',
      Metric_Data = MetricTypeHistogram
        [\<lparr>DataPoint_Attributes = [(''ip'', ''10.0.0.5'')], DataPoint_Payload = [1, 2]\<rparr>,
         \<lparr>DataPoint_Attributes = [(''host'', ''a'')], DataPoint_Payload = [0]\<rparr>,
         \<lparr>DataPoint_Attributes = [(''ip'', ''10.0.0.9'')], DataPoint_Payload = []\<rparr>]\<rparr>"









text \<open>
  An instance of the parameters of \<open>Translate\<close>: a configuration map as a list of entries
  under their joined keys, and a factory of the right type.
\<close>

fun joinKeys :: "string list \<Rightarrow> string" where
  "joinKeys [] = []"
| "joinKeys [k] = k"
| "joinKeys (k # ks) = k @ ''::'' @ joinKeys ks"

definition example_translate_packages :: "((string \<times> string) list) packages_of_Translate" where
  "example_translate_packages =
     \<lparr>IsSet = (\<lambda>c k. map_of c k \<noteq> None),
      GetString = (\<lambda>c k. case map_of c k of None \<Rightarrow> ([], False) | Some v \<Rightarrow> (v, True)),
      ConfigKey = joinKeys,
      MetricsKey = ''metrics'',
      AppendDimensionsKey = ''append_dimensions'',
      MetricsCollectedKey = ''metrics_collected'',
      DiskKey = ''disk'',
      SupportedAppendDimensions =
        [(''AutoScalingGroupName'', ''${aws:AutoScalingGroupName}''),
         (''InstanceId'', ''${aws:InstanceId}'')],
      AttributeVolumeId = ''VolumeId'',
      ValueAppendDimensionVolumeId = ''${aws:VolumeId}'',
      UnmarshalCredentials = (\<lambda>cfg. cfg\<lparr>RefreshTagsInterval := 7\<rparr>),
      StatusCodeID = \<lparr>ID_Type = ''agenthealth'', ID_Name = ''statuscode''\<rparr>,
      GetDefaultRetryNumber = 1\<rparr>"

definition default_config :: ec2tagger_Config where
  "default_config =
     \<lparr>RefreshTagsInterval = 180 * 1000000000, RefreshVolumesInterval = 9,
      EC2MetadataTags = [], EC2InstanceTagKeys = [], EBSDeviceKeys = [],
      DiskDeviceTagKey = [], MiddlewareID = None, IMDSRetries = 0\<rparr>"

definition example_translator :: translator where
  "example_translator =
     \<lparr>name = [],
      factory = \<lparr>Factory_Type = ''ec2tagger'',
                 CreateDefaultConfig = Ec2taggerConfig default_config\<rparr>\<rparr>"

definition example_conf :: "(string \<times> string) list" where
  "example_conf =
     [(''metrics::append_dimensions'', ''set''),
      (''metrics::append_dimensions::InstanceId'', ''${aws:InstanceId}''),
      (''metrics::metrics_collected::disk::append_dimensions::VolumeId'', ''${aws:VolumeId}'')]"

section \<open>Facts about the example inputs\<close>

lemma example_processor_chains:
  "metricMutators example_processor = [unchanged, unresolved_ip]"
  "traceMutators example_processor = [unchanged, unresolved_ip, unchanged]"
  "replaceActions example_processor = unchanged"
  "allowlistMutators example_processor = [Keeper [drop_unresolved], Dropper [drop_unresolved]]"
  "logger example_processor = []"
  "stoppers example_processor = [\<lambda>ctx w. (None, w @ [''resolver''])]"
  by (simp_all add: example_processor_def Start_def example_packages_def new_processor_def
        Let_def cold_resolver_def)

lemma example_mutators_keep_resource:
  "keepsResource unchanged" "keepsResource unresolved_ip" "keepsResource failing"
  by (simp_all add: keepsResource_def unchanged_def unresolved_ip_def failing_def)

lemmas example_filter_defs =
  signalledDrop_def Keeper_def Dropper_def keepRules_def dropRules_def matchesAllowRule_def
  matchesDenyRule_def matchesRule_def

section \<open>Shutdown\<close>

lemma stopAll_world:
  "fst (stopAll ss ctx w lg) = fold (\<lambda>stopper w. snd (stopper ctx w)) ss w"
  by (induction ss arbitrary: w lg) (simp_all add: split_def)

lemma stopAll_log:
  "snd (stopAll ss ctx w lg) =
     lg @ map (\<lambda>e. (ErrorLevel, ''failed to stop'', ErrorField e)) (stopErrors ss ctx w)"
  by (induction ss arbitrary: w lg) (simp_all add: split_def split: option.splits)

text \<open>
  C8: Shutdown calls \<open>Stop\<close> on every registered stopper, in order, whether or not an
  earlier \<open>Stop\<close> failed: the components end in the state that all the stops, one after the
  other, leave. A failure is only logged, at error level, and the result is the nil error.
\<close>

theorem Shutdown_stops_every_stopper:
  "Shutdown ap ctx w =
     (None,
      ap\<lparr>logger := logger ap @
            map (\<lambda>e. (ErrorLevel, ''failed to stop'', ErrorField e))
              (stopErrors (stoppers ap) ctx w)\<rparr>,
      fold (\<lambda>stopper w. snd (stopper ctx w)) (stoppers ap) w)"
  by (simp add: Shutdown_def split_def stopAll_world stopAll_log)

theorem Shutdown_stops_every_stopper_witness:
  "Shutdown
     (example_processor\<lparr>stoppers :=
        [\<lambda>ctx w. (Some ''timeout'', w @ [''cache'']), \<lambda>ctx w. (None, w @ [''resolver''])]\<rparr>)
     () [] =
   (None,
    example_processor\<lparr>stoppers :=
        [\<lambda>ctx w. (Some ''timeout'', w @ [''cache'']), \<lambda>ctx w. (None, w @ [''resolver''])],
      logger := [(ErrorLevel, ''failed to stop'', ErrorField ''timeout'')]\<rparr>,
    [''cache'', ''resolver''])"
  using Shutdown_stops_every_stopper
    [of "example_processor\<lparr>stoppers :=
          [\<lambda>ctx w. (Some ''timeout'', w @ [''cache'']), \<lambda>ctx w. (None, w @ [''resolver''])]\<rparr>"
        "()" "[]"]
  by (simp add: example_processor_chains)

section \<open>Traces keep their shape\<close>

lemma processSpans_names:
  "map Span_Name (fst (processSpans ms spans res lg)) = map Span_Name spans"
  by (induction spans arbitrary: res lg) (simp_all add: split_def)

lemma processScopeSpans_names:
  "map (\<lambda>ils. (Scope_Name ils, map Span_Name (Spans ils)))
     (fst (processScopeSpans ms ilss res lg)) =
   map (\<lambda>ils. (Scope_Name ils, map Span_Name (Spans ils))) ilss"
  by (induction ilss arbitrary: res lg) (simp_all add: split_def processSpans_names)

lemma processResourceSpans_names:
  "spanNames (fst (processResourceSpans ms td lg)) = spanNames td"
  by (induction td arbitrary: lg) (simp_all add: spanNames_def split_def processScopeSpans_names)

lemma spanCounts_spanNames: "spanCounts td = map (map (\<lambda>p. length (snd p))) (spanNames td)"
  by (simp add: spanCounts_def spanNames_def comp_def)

text \<open>
  C9: processTraces removes no telemetry unit. The batch has as many resources after
  processing as before, every resource as many scopes and every scope as many spans, and
  the spans are the same ones, in the same order: only attribute sets can differ.
\<close>

theorem processTraces_drops_nothing:
  "length (fst (processTraces ap ctx td)) = length td \<and>
   spanCounts (fst (processTraces ap ctx td)) = spanCounts td \<and>
   spanNames (fst (processTraces ap ctx td)) = spanNames td"
proof -
  have n: "spanNames (fst (processTraces ap ctx td)) = spanNames td"
    by (simp add: processTraces_def split_def processResourceSpans_names)
  have "length (spanNames (fst (processTraces ap ctx td))) = length (spanNames td)"
    using n by simp
  then have "length (fst (processTraces ap ctx td)) = length td"
    by (simp add: spanNames_def)
  then show ?thesis using n by (simp add: spanCounts_spanNames)
qed

theorem processTraces_drops_nothing_witness:
  "length (fst (processTraces example_processor () example_traces)) = 1 \<and>
   spanCounts (fst (processTraces example_processor () example_traces)) = [[2]] \<and>
   spanNames (fst (processTraces example_processor () example_traces)) =
     [[(''scope'', [''GET'', ''PUT''])]]"
  using processTraces_drops_nothing [of example_processor "()" example_traces]
  by (simp add: example_traces_def spanCounts_def spanNames_def)

section \<open>The three phases of a metric branch\<close>

lemma applyMutators_chain:
  "fst (applyMutators ms isTrace msg attrs res lg) = fst (chainStep ms isTrace (attrs, res)) \<and>
   fst (snd (applyMutators ms isTrace msg attrs res lg)) = snd (chainStep ms isTrace (attrs, res))"
  by (induction ms arbitrary: attrs res lg) (simp_all add: chainStep_def split_def)

lemma mutateDataPoints_forEach:
  "fst (mutateDataPoints ms dps res lg) = fst (forEach (mutateStep ms) dps res) \<and>
   fst (snd (mutateDataPoints ms dps res lg)) = snd (forEach (mutateStep ms) dps res)"
  by (induction dps arbitrary: res lg)
    (simp_all add: split_def mutateStep_def applyMutators_chain)

lemma shouldRemove_verdict: "fst (shouldRemove ms attrs lg) = signalledDrop ms attrs"
  by (induction ms arbitrary: lg) (simp_all add: signalledDrop_def split_def Let_def)

lemma RemoveIf_filter:
  "fst (RemoveIf (\<lambda>d. shouldRemove ms (DataPoint_Attributes d)) dps lg) =
     filter (\<lambda>d. \<not> signalledDrop ms (DataPoint_Attributes d)) dps"
  by (induction dps arbitrary: lg) (simp_all add: split_def shouldRemove_verdict)

lemma replaceDataPoints_forEach:
  "fst (replaceDataPoints replacer dps res lg) = fst (forEach (replaceStep replacer) dps res) \<and>
   fst (snd (replaceDataPoints replacer dps res lg)) = snd (forEach (replaceStep replacer) dps res)"
  by (induction dps arbitrary: res lg) (simp_all add: split_def replaceStep_def)

lemma three_loops:
  "fst (replaceDataPoints (replaceActions ap)
      (fst (RemoveIf (\<lambda>d. shouldRemove (allowlistMutators ap) (DataPoint_Attributes d))
              (fst (mutateDataPoints (metricMutators ap) dps res lg)) lg1))
      (fst (snd (mutateDataPoints (metricMutators ap) dps res lg))) lg2)
     = fst (mutateFilterReplace ap dps res) \<and>
    fst (snd (replaceDataPoints (replaceActions ap)
      (fst (RemoveIf (\<lambda>d. shouldRemove (allowlistMutators ap) (DataPoint_Attributes d))
              (fst (mutateDataPoints (metricMutators ap) dps res lg)) lg1))
      (fst (snd (mutateDataPoints (metricMutators ap) dps res lg))) lg2))
     = snd (mutateFilterReplace ap dps res)"
  by (simp add: mutateFilterReplace_def split_def RemoveIf_filter
        mutateDataPoints_forEach replaceDataPoints_forEach)

lemma processMetricAttributes_Empty:
  "Metric_Data m = MetricTypeEmpty \<Longrightarrow>
     processMetricAttributes ap ctx m res lg =
       (m, res,
        lg @ [(DebugLevel, ''Ignore unknown metric type'', StringField ''type'' ''Empty'')])"
  by (simp add: processMetricAttributes_def)

lemma processMetricAttributes_Gauge:
  "Metric_Data m = MetricTypeGauge dps \<Longrightarrow>
     fst (processMetricAttributes ap ctx m res lg) =
       m\<lparr>Metric_Data := MetricTypeGauge (fst (mutateFilterReplace ap dps res))\<rparr> \<and>
     fst (snd (processMetricAttributes ap ctx m res lg)) = snd (mutateFilterReplace ap dps res)"
  by (simp add: processMetricAttributes_def split_def three_loops)

lemma processMetricAttributes_Sum:
  "Metric_Data m = MetricTypeSum dps \<Longrightarrow>
     fst (processMetricAttributes ap ctx m res lg) =
       m\<lparr>Metric_Data := MetricTypeSum (fst (mutateFilterReplace ap dps res))\<rparr> \<and>
     fst (snd (processMetricAttributes ap ctx m res lg)) = snd (mutateFilterReplace ap dps res)"
  by (simp add: processMetricAttributes_def split_def three_loops)

lemma processMetricAttributes_Histogram:
  "Metric_Data m = MetricTypeHistogram dps \<Longrightarrow>
     fst (processMetricAttributes ap ctx m res lg) =
       m\<lparr>Metric_Data := MetricTypeHistogram (fst (mutateFilterReplace ap dps res))\<rparr> \<and>
     fst (snd (processMetricAttributes ap ctx m res lg)) = snd (mutateFilterReplace ap dps res)"
  by (simp add: processMetricAttributes_def split_def three_loops)

lemma processMetricAttributes_ExponentialHistogram:
  "Metric_Data m = MetricTypeExponentialHistogram dps \<Longrightarrow>
     fst (processMetricAttributes ap ctx m res lg) =
       m\<lparr>Metric_Data := MetricTypeExponentialHistogram (fst (mutateFilterReplace ap dps res))\<rparr> \<and>
     fst (snd (processMetricAttributes ap ctx m res lg)) = snd (mutateFilterReplace ap dps res)"
  by (simp add: processMetricAttributes_def split_def three_loops)

lemma processMetricAttributes_Summary:
  "Metric_Data m = MetricTypeSummary dps \<Longrightarrow>
     fst (processMetricAttributes ap ctx m res lg) =
       m\<lparr>Metric_Data := MetricTypeSummary (fst (mutateFilterReplace ap dps res))\<rparr> \<and>
     fst (snd (processMetricAttributes ap ctx m res lg)) = snd (mutateFilterReplace ap dps res)"
  by (simp add: processMetricAttributes_def split_def three_loops)

text \<open>
  C4: for every metric and every recognized datapoint kind, the branch computes the three
  phases in the order mutate, filter, replace: the whole mutate-phase chain on every
  datapoint, then the removal of the datapoints for which a filter mutator signals drop,
  judged on the mutated attributes, and then the replacer on exactly the datapoints left.
\<close>

theorem mutate_then_filter_then_replace:
  "(fst (processMetricAttributes ap ctx m res lg),
    fst (snd (processMetricAttributes ap ctx m res lg))) =
   (case Metric_Data m of
      MetricTypeEmpty \<Rightarrow> (m, res)
    | MetricTypeGauge dps \<Rightarrow>
        (m\<lparr>Metric_Data := MetricTypeGauge (fst (mutateFilterReplace ap dps res))\<rparr>,
         snd (mutateFilterReplace ap dps res))
    | MetricTypeSum dps \<Rightarrow>
        (m\<lparr>Metric_Data := MetricTypeSum (fst (mutateFilterReplace ap dps res))\<rparr>,
         snd (mutateFilterReplace ap dps res))
    | MetricTypeHistogram dps \<Rightarrow>
        (m\<lparr>Metric_Data := MetricTypeHistogram (fst (mutateFilterReplace ap dps res))\<rparr>,
         snd (mutateFilterReplace ap dps res))
    | MetricTypeExponentialHistogram dps \<Rightarrow>
        (m\<lparr>Metric_Data := MetricTypeExponentialHistogram (fst (mutateFilterReplace ap dps res))\<rparr>,
         snd (mutateFilterReplace ap dps res))
    | MetricTypeSummary dps \<Rightarrow>
        (m\<lparr>Metric_Data := MetricTypeSummary (fst (mutateFilterReplace ap dps res))\<rparr>,
         snd (mutateFilterReplace ap dps res)))"
proof (cases "Metric_Data m")
  case MetricTypeEmpty
  then show ?thesis by (simp add: processMetricAttributes_Empty)
next
  case (MetricTypeGauge dps)
  then show ?thesis by (simp add: processMetricAttributes_Gauge)
next
  case (MetricTypeSum dps)
  then show ?thesis by (simp add: processMetricAttributes_Sum)
next
  case (MetricTypeHistogram dps)
  then show ?thesis by (simp add: processMetricAttributes_Histogram)
next
  case (MetricTypeExponentialHistogram dps)
  then show ?thesis by (simp add: processMetricAttributes_ExponentialHistogram)
next
  case (MetricTypeSummary dps)
  then show ?thesis by (simp add: processMetricAttributes_Summary)
qed

lemma example_mutateFilterReplace:
  "mutateFilterReplace example_processor [dp1, dp3, dp2] res = ([dp3], res)"
  by (simp add: mutateFilterReplace_def example_processor_chains mutateStep_def chainStep_def
        unchanged_def unresolved_ip_def example_filter_defs drop_unresolved_def
        dp1_def dp2_def dp3_def replaceStep_def)

theorem mutate_then_filter_then_replace_witness:
  "fst (processMetricAttributes example_processor () example_gauge [(''service'', ''checkout'')] []) =
     \<lparr>Metric_Name = ''latency'', Metric_Data = MetricTypeGauge [dp3]\<rparr> \<and>
   fst (snd (processMetricAttributes example_processor () example_gauge
               [(''service'', ''checkout'')] [])) = [(''service'', ''checkout'')]"
  using mutate_then_filter_then_replace
    [of example_processor "()" example_gauge "[(''service'', ''checkout'')]" "[]"]
  by (simp add: example_gauge_def example_mutateFilterReplace)

section \<open>Resource attributes\<close>

lemma chainStep_keepsResource:
  "\<forall>m\<in>set ms. keepsResource m \<Longrightarrow> snd (chainStep ms isTrace (attrs, res)) = res"
proof (induction ms arbitrary: attrs)
  case Nil
  show ?case by (simp add: chainStep_def)
next
  case (Cons m rest)
  have m: "fst (snd (m attrs res isTrace)) = res"
    using Cons.prems by (simp add: keepsResource_def)
  have "snd (chainStep rest isTrace (fst (m attrs res isTrace), res)) = res"
    using Cons.IH Cons.prems by simp
  then show ?case using m by (simp add: chainStep_def)
qed

lemma processSpans_resource:
  "\<forall>m\<in>set ms. keepsResource m \<Longrightarrow> fst (snd (processSpans ms spans res lg)) = res"
  by (induction spans arbitrary: lg)
    (simp_all add: split_def applyMutators_chain chainStep_keepsResource)

lemma processScopeSpans_resource:
  "\<forall>m\<in>set ms. keepsResource m \<Longrightarrow> fst (snd (processScopeSpans ms ilss res lg)) = res"
  by (induction ilss arbitrary: lg) (simp_all add: split_def processSpans_resource)

lemma processResourceSpans_resource:
  "\<forall>m\<in>set ms. keepsResource m \<Longrightarrow>
     map Resource_Attributes (fst (processResourceSpans ms td lg)) = map Resource_Attributes td"
  by (induction td arbitrary: lg) (simp_all add: split_def processScopeSpans_resource)

lemma mutateDataPoints_resource:
  "\<forall>m\<in>set ms. keepsResource m \<Longrightarrow> fst (snd (mutateDataPoints ms dps res lg)) = res"
  by (induction dps arbitrary: lg)
    (simp_all add: split_def applyMutators_chain chainStep_keepsResource)

lemma replaceDataPoints_resource:
  "keepsResource replacer \<Longrightarrow> fst (snd (replaceDataPoints replacer dps res lg)) = res"
proof (induction dps arbitrary: lg)
  case Nil
  show ?case by simp
next
  case (Cons d rest)
  have "fst (snd (replacer (DataPoint_Attributes d) res False)) = res"
    using Cons.prems by (simp add: keepsResource_def)
  then show ?case using Cons by (simp add: split_def)
qed

lemma processMetricAttributes_resource:
  assumes "\<forall>m\<in>set (metricMutators ap). keepsResource m" and "keepsResource (replaceActions ap)"
  shows "fst (snd (processMetricAttributes ap ctx m res lg)) = res"
  using assms
  by (cases "Metric_Data m")
    (simp_all add: processMetricAttributes_def split_def mutateDataPoints_resource
       replaceDataPoints_resource)

lemma processMetricList_resource:
  assumes "\<forall>m\<in>set (metricMutators ap). keepsResource m" and "keepsResource (replaceActions ap)"
  shows "fst (snd (processMetricList ap ctx ms res lg)) = res"
  using assms
  by (induction ms arbitrary: lg) (simp_all add: split_def processMetricAttributes_resource)

lemma processScopeMetrics_resource:
  assumes "\<forall>m\<in>set (metricMutators ap). keepsResource m" and "keepsResource (replaceActions ap)"
  shows "fst (snd (processScopeMetrics ap ctx ilms res lg)) = res"
  using assms
  by (induction ilms arbitrary: lg) (simp_all add: split_def processMetricList_resource)

lemma processResourceMetrics_resource:
  assumes "\<forall>m\<in>set (metricMutators ap). keepsResource m" and "keepsResource (replaceActions ap)"
  shows "map MResource_Attributes (fst (processResourceMetrics ap ctx md lg)) =
           map MResource_Attributes md"
  using assms
  by (induction md arbitrary: lg) (simp_all add: split_def processScopeMetrics_resource)

text \<open>
  C5: if the \<open>Process\<close> of every mutator of the trace chain, of the metric mutate-phase chain
  and of the replace phase leaves its resource attributes unchanged, then processTraces
  and processMetrics leave the attribute set of every resource of the batch as it was.
\<close>

theorem resource_attributes_unchanged:
  assumes "\<forall>m\<in>set (traceMutators ap). keepsResource m"
    and "\<forall>m\<in>set (metricMutators ap). keepsResource m"
    and "keepsResource (replaceActions ap)"
  shows "map Resource_Attributes (fst (processTraces ap ctx td)) = map Resource_Attributes td \<and>
         map MResource_Attributes (fst (processMetrics ap ctx md)) = map MResource_Attributes md"
  using assms
  by (simp add: processTraces_def processMetrics_def split_def processResourceSpans_resource
        processResourceMetrics_resource)

theorem resource_attributes_unchanged_witness:
  "keepsResource unchanged \<and> keepsResource unresolved_ip \<and>
   map Resource_Attributes (fst (processTraces example_processor () example_traces)) =
     [[(''service'', ''checkout'')]] \<and>
   map MResource_Attributes (fst (processMetrics example_processor () example_metrics)) =
     [[(''service'', ''checkout'')]]"
proof -
  have t: "\<forall>m\<in>set (traceMutators example_processor). keepsResource m"
    by (simp add: example_processor_chains example_mutators_keep_resource)
  have m: "\<forall>m\<in>set (metricMutators example_processor). keepsResource m"
    by (simp add: example_processor_chains example_mutators_keep_resource)
  have r: "keepsResource (replaceActions example_processor)"
    by (simp add: example_processor_chains example_mutators_keep_resource)
  show ?thesis
    using resource_attributes_unchanged [OF t m r, of "()" example_traces example_metrics]
    by (simp add: example_traces_def example_metrics_def example_mutators_keep_resource)
qed

section \<open>Start\<close>

text \<open>
  C3: Start returns the nil error and leaves the trace chain [resolver, normalizer,
  replacer], the metric mutate-phase chain [resolver, normalizer], the filter phase
  [keeper, dropper], the replace phase the replacer and the stoppers [resolver]. The
  one-element metric chain assigned first is overwritten: the processor is the one that
  a Start without that assignment leaves.
\<close>

theorem Start_chains:
  "fst (Start pk ap) = None \<and>
   traceMutators (snd (Start pk ap)) =
     [resolver_Process (NewAttributesResolver pk (Resolvers (config ap))),
      NewAttributesNormalizer pk, NewReplacer pk (Rules (config ap))] \<and>
   metricMutators (snd (Start pk ap)) =
     [resolver_Process (NewAttributesResolver pk (Resolvers (config ap))),
      NewAttributesNormalizer pk] \<and>
   allowlistMutators (snd (Start pk ap)) =
     [NewKeeper pk (Rules (config ap)), NewDropper pk (Rules (config ap))] \<and>
   replaceActions (snd (Start pk ap)) = NewReplacer pk (Rules (config ap)) \<and>
   stoppers (snd (Start pk ap)) =
     [resolver_Stop (NewAttributesResolver pk (Resolvers (config ap)))] \<and>
   Start pk ap = Start_effective pk ap"
  by (simp add: Start_def Start_effective_def Let_def)

theorem Start_chains_witness:
  "fst (Start example_packages (new_processor [drop_unresolved])) = None \<and>
   traceMutators (snd (Start example_packages (new_processor [drop_unresolved]))) =
     [unchanged, unresolved_ip, unchanged] \<and>
   metricMutators (snd (Start example_packages (new_processor [drop_unresolved]))) =
     [unchanged, unresolved_ip] \<and>
   allowlistMutators (snd (Start example_packages (new_processor [drop_unresolved]))) =
     [Keeper [drop_unresolved], Dropper [drop_unresolved]]"
  using Start_chains [of example_packages "new_processor [drop_unresolved]"]
  by (simp add: Start_effective_def example_packages_def new_processor_def cold_resolver_def)

section \<open>Errors of mutators\<close>













lemma failing_processor_chains:
  "traceMutators failing_processor = [failing, unresolved_ip]"
  "metricMutators failing_processor = [failing, unresolved_ip]"
  "replaceActions failing_processor = failing"
  "allowlistMutators failing_processor = [Keeper [drop_unresolved], Dropper [drop_unresolved]]"
  "logger failing_processor = []"
  by (simp_all add: failing_processor_def example_processor_chains)


section \<open>The five kinds\<close>

lemma erase_attributes [simp]: "DataPoint_Attributes (erase d) = DataPoint_Attributes d"
  by (simp add: erase_def)

lemma erase_update:
  "erase (d\<lparr>DataPoint_Attributes := a\<rparr>) = (erase d)\<lparr>DataPoint_Attributes := a\<rparr>"
  by (simp add: erase_def)

lemma map_erase:
  "map erase dps =
     map (\<lambda>a. \<lparr>DataPoint_Attributes = a, DataPoint_Payload = ()\<rparr>) (map DataPoint_Attributes dps)"
  by (simp add: erase_def)

lemma mutateDataPoints_erase:
  "fst (mutateDataPoints ms (map erase dps) res lg) = map erase (fst (mutateDataPoints ms dps res lg)) \<and>
   snd (mutateDataPoints ms (map erase dps) res lg) = snd (mutateDataPoints ms dps res lg)"
  by (induction dps arbitrary: res lg) (simp_all add: split_def erase_update)

lemma RemoveIf_erase:
  "fst (RemoveIf (\<lambda>d. f (DataPoint_Attributes d)) (map erase dps) lg) =
     map erase (fst (RemoveIf (\<lambda>d. f (DataPoint_Attributes d)) dps lg)) \<and>
   snd (RemoveIf (\<lambda>d. f (DataPoint_Attributes d)) (map erase dps) lg) =
     snd (RemoveIf (\<lambda>d. f (DataPoint_Attributes d)) dps lg)"
  by (induction dps arbitrary: lg) (simp_all add: split_def)

lemma replaceDataPoints_erase:
  "fst (replaceDataPoints replacer (map erase dps) res lg) =
     map erase (fst (replaceDataPoints replacer dps res lg)) \<and>
   snd (replaceDataPoints replacer (map erase dps) res lg) =
     snd (replaceDataPoints replacer dps res lg)"
  by (induction dps arbitrary: res lg) (simp_all add: split_def erase_update)

lemma attributes_erase: "map DataPoint_Attributes (map erase dps) = map DataPoint_Attributes dps"
  by simp

lemma branch_outcome:
  "(case mutateDataPoints (metricMutators ap) dps res lg of
      (dps1, res1, lg1) \<Rightarrow>
        (case RemoveIf (\<lambda>d. shouldRemove (allowlistMutators ap) (DataPoint_Attributes d))
                dps1 lg1 of
           (dps2, lg2) \<Rightarrow>
             (case replaceDataPoints (replaceActions ap) dps2 res1 lg2 of
                (dps3, res3, lg3) \<Rightarrow> (map DataPoint_Attributes dps3, res3, lg3)))) =
   attributeOutcome ap (map DataPoint_Attributes dps) res lg"
proof -
  have "attributeOutcome ap (map DataPoint_Attributes dps) res lg =
    (case mutateDataPoints (metricMutators ap) (map erase dps) res lg of
      (dps1, res1, lg1) \<Rightarrow>
        (case RemoveIf (\<lambda>d. shouldRemove (allowlistMutators ap) (DataPoint_Attributes d))
                dps1 lg1 of
           (dps2, lg2) \<Rightarrow>
             (case replaceDataPoints (replaceActions ap) dps2 res1 lg2 of
                (dps3, res3, lg3) \<Rightarrow> (map DataPoint_Attributes dps3, res3, lg3))))"
    by (simp only: attributeOutcome_def map_erase)
  also have "\<dots> =
    (case mutateDataPoints (metricMutators ap) dps res lg of
      (dps1, res1, lg1) \<Rightarrow>
        (case RemoveIf (\<lambda>d. shouldRemove (allowlistMutators ap) (DataPoint_Attributes d))
                dps1 lg1 of
           (dps2, lg2) \<Rightarrow>
             (case replaceDataPoints (replaceActions ap) dps2 res1 lg2 of
                (dps3, res3, lg3) \<Rightarrow> (map DataPoint_Attributes dps3, res3, lg3))))"
    by (simp only: split_def mutateDataPoints_erase RemoveIf_erase replaceDataPoints_erase
          attributes_erase)
  finally show ?thesis by simp
qed

lemma processMetricAttributes_outcome:
  "Metric_Data m \<noteq> MetricTypeEmpty \<Longrightarrow>
     (attributeSets (Metric_Data (fst (processMetricAttributes ap ctx m res lg))),
      snd (processMetricAttributes ap ctx m res lg)) =
     attributeOutcome ap (attributeSets (Metric_Data m)) res lg"
proof (cases "Metric_Data m")
  case MetricTypeEmpty
  assume "Metric_Data m \<noteq> MetricTypeEmpty"
  then show ?thesis using MetricTypeEmpty by simp
next
  case (MetricTypeGauge dps)
  show ?thesis
    using branch_outcome [of ap dps res lg, symmetric] MetricTypeGauge
    by (simp add: processMetricAttributes_def split_def)
next
  case (MetricTypeSum dps)
  show ?thesis
    using branch_outcome [of ap dps res lg, symmetric] MetricTypeSum
    by (simp add: processMetricAttributes_def split_def)
next
  case (MetricTypeHistogram dps)
  show ?thesis
    using branch_outcome [of ap dps res lg, symmetric] MetricTypeHistogram
    by (simp add: processMetricAttributes_def split_def)
next
  case (MetricTypeExponentialHistogram dps)
  show ?thesis
    using branch_outcome [of ap dps res lg, symmetric] MetricTypeExponentialHistogram
    by (simp add: processMetricAttributes_def split_def)
next
  case (MetricTypeSummary dps)
  show ?thesis
    using branch_outcome [of ap dps res lg, symmetric] MetricTypeSummary
    by (simp add: processMetricAttributes_def split_def)
qed

text \<open>
  C7: the five datapoint kinds are processed alike. Two metrics of recognized kinds,
  the same or not, whose datapoints carry the same attribute sets, processed by the same
  processor with the same resource attributes, end with the same attribute sets (the same
  mutations, drops and replacements), the same resource attributes and the same log:
  each branch yields what the three loops yield on the attribute sets alone.
\<close>

theorem kinds_processed_alike:
  assumes "Metric_Data m1 \<noteq> MetricTypeEmpty" and "Metric_Data m2 \<noteq> MetricTypeEmpty"
    and "attributeSets (Metric_Data m1) = attributeSets (Metric_Data m2)"
  shows "attributeSets (Metric_Data (fst (processMetricAttributes ap ctx m1 res lg))) =
           attributeSets (Metric_Data (fst (processMetricAttributes ap ctx m2 res lg))) \<and>
         snd (processMetricAttributes ap ctx m1 res lg) =
           snd (processMetricAttributes ap ctx m2 res lg) \<and>
         (attributeSets (Metric_Data (fst (processMetricAttributes ap ctx m1 res lg))),
          snd (processMetricAttributes ap ctx m1 res lg)) =
           attributeOutcome ap (attributeSets (Metric_Data m1)) res lg"
proof -
  have o1: "(attributeSets (Metric_Data (fst (processMetricAttributes ap ctx m1 res lg))),
          snd (processMetricAttributes ap ctx m1 res lg)) =
           attributeOutcome ap (attributeSets (Metric_Data m1)) res lg"
    using assms(1) by (rule processMetricAttributes_outcome)
  have o2: "(attributeSets (Metric_Data (fst (processMetricAttributes ap ctx m2 res lg))),
          snd (processMetricAttributes ap ctx m2 res lg)) =
           attributeOutcome ap (attributeSets (Metric_Data m1)) res lg"
    using assms(2) assms(3) by (simp add: processMetricAttributes_outcome)
  show ?thesis using o1 o2 by (metis prod.inject)
qed

theorem kinds_processed_alike_witness:
  "Metric_Data example_gauge \<noteq> MetricTypeEmpty \<and>
   Metric_Data example_histogram \<noteq> MetricTypeEmpty \<and>
   attributeSets (Metric_Data example_gauge) = attributeSets (Metric_Data example_histogram) \<and>
   attributeSets (Metric_Data
     (fst (processMetricAttributes failing_processor () example_gauge [] []))) =
     [[(''host'', ''a''), (''seen'', ''yes''), (''seen'', ''yes'')]] \<and>
   attributeSets (Metric_Data
     (fst (processMetricAttributes failing_processor () example_histogram [] []))) =
     [[(''host'', ''a''), (''seen'', ''yes''), (''seen'', ''yes'')]] \<and>
   snd (processMetricAttributes failing_processor () example_gauge [] []) =
     snd (processMetricAttributes failing_processor () example_histogram [] [])"
proof -
  have g: "Metric_Data example_gauge \<noteq> MetricTypeEmpty"
    by (simp add: example_gauge_def)
  have h: "Metric_Data example_histogram \<noteq> MetricTypeEmpty"
    by (simp add: example_histogram_def)
  have a: "attributeSets (Metric_Data example_gauge) =
             attributeSets (Metric_Data example_histogram)"
    by (simp add: example_gauge_def example_histogram_def dp1_def dp2_def dp3_def)
  have e: "attributeSets (Metric_Data
     (fst (processMetricAttributes failing_processor () example_gauge [] []))) =
     [[(''host'', ''a''), (''seen'', ''yes''), (''seen'', ''yes'')]]"
    by (simp add: processMetricAttributes_def failing_processor_chains example_gauge_def
          failing_def unresolved_ip_def dp1_def dp2_def dp3_def example_filter_defs
          drop_unresolved_def)
  show ?thesis
    using kinds_processed_alike [OF g h a, of failing_processor "()" "[]" "[]"] g h a e
    by simp
qed

section \<open>The filter phase\<close>









section \<open>Translate\<close>

lemma example_translate_fields:
  "IsSet example_translate_packages = (\<lambda>c k. map_of c k \<noteq> None)"
  "GetString example_translate_packages =
     (\<lambda>c k. case map_of c k of None \<Rightarrow> ([], False) | Some v \<Rightarrow> (v, True))"
  "ConfigKey example_translate_packages = joinKeys"
  "MetricsKey example_translate_packages = ''metrics''"
  "AppendDimensionsKey example_translate_packages = ''append_dimensions''"
  "MetricsCollectedKey example_translate_packages = ''metrics_collected''"
  "DiskKey example_translate_packages = ''disk''"
  "SupportedAppendDimensions example_translate_packages =
     [(''AutoScalingGroupName'', ''${aws:AutoScalingGroupName}''),
      (''InstanceId'', ''${aws:InstanceId}'')]"
  "AttributeVolumeId example_translate_packages = ''VolumeId''"
  "ValueAppendDimensionVolumeId example_translate_packages = ''${aws:VolumeId}''"
  "UnmarshalCredentials example_translate_packages = (\<lambda>cfg. cfg\<lparr>RefreshTagsInterval := 7\<rparr>)"
  "StatusCodeID example_translate_packages = \<lparr>ID_Type = ''agenthealth'', ID_Name = ''statuscode''\<rparr>"
  "GetDefaultRetryNumber example_translate_packages = 1"
  by (simp_all add: example_translate_packages_def)

lemma Translate_missing:
  "keyMissing pk conf \<Longrightarrow>
     Translate pk t conf = Returns (None, Some (MissingKeyError (ID t) (Ec2taggerKey pk)))"
  by (simp add: Translate_def keyMissing_def split: option.splits)

lemma Translate_present:
  assumes "\<not> keyMissing pk conf"
  shows "Translate pk t conf = Panics \<or>
         (\<exists>cfg. Translate pk t conf = Returns (Some cfg, None) \<and>
                RefreshTagsInterval cfg = 0 \<and>
                RefreshVolumesInterval cfg = (if volumeIdConfigured pk conf then 5 * Minute else 0))"
proof -
  obtain c where c: "conf = Some c" and s: "IsSet pk c (Ec2taggerKey pk)"
    using assms by (auto simp: keyMissing_def split: option.splits)
  show ?thesis
  proof (cases "CreateDefaultConfig (factory t)")
    case (Ec2taggerConfig cfg0)
    then show ?thesis
      using c s by (simp add: Translate_def volumeIdConfigured_def Let_def split_def)
  next
    case NilEc2taggerConfig
    then show ?thesis using c s by (simp add: Translate_def)
  next
    case OtherConfig
    then show ?thesis using c s by (simp add: Translate_def)
  qed
qed

lemma Translate_present_returns:
  assumes "\<not> keyMissing pk conf" and "CreateDefaultConfig (factory t) = Ec2taggerConfig cfg0"
  shows "\<exists>cfg. Translate pk t conf = Returns (Some cfg, None)"
proof -
  obtain c where c: "conf = Some c" and s: "IsSet pk c (Ec2taggerKey pk)"
    using assms(1) by (auto simp: keyMissing_def split: option.splits)
  show ?thesis using c s assms(2) by (simp add: Translate_def Let_def split_def)
qed

text \<open>
  C10: Translate returns a nil config with a MissingKeyError exactly when the
  configuration map is nil or the metrics append-dimensions key is not set in it. In every
  other case it returns, unless the factory's default config is not a non-nil
  \<open>ec2tagger.Config\<close>, and what it returns is a config with the nil error, whose
  RefreshTagsInterval is zero and whose RefreshVolumesInterval is five minutes when the
  disk volume-id dimension is configured and zero otherwise.
\<close>

theorem Translate_outcome:
  "((Translate pk t conf = Returns (None, Some (MissingKeyError (ID t) (Ec2taggerKey pk)))) =
      keyMissing pk conf) \<and>
   (\<forall>cfg err. Translate pk t conf = Returns (cfg, err) \<longrightarrow>
      (cfg = None) = keyMissing pk conf \<and> (err \<noteq> None) = keyMissing pk conf) \<and>
   (\<forall>cfg err. Translate pk t conf = Returns (Some cfg, err) \<longrightarrow>
      err = None \<and> RefreshTagsInterval cfg = 0 \<and>
      RefreshVolumesInterval cfg = (if volumeIdConfigured pk conf then 5 * Minute else 0)) \<and>
   (\<forall>cfg0. \<not> keyMissing pk conf \<and> CreateDefaultConfig (factory t) = Ec2taggerConfig cfg0 \<longrightarrow>
      (\<exists>cfg. Translate pk t conf = Returns (Some cfg, None)))"
proof (cases "keyMissing pk conf")
  case True
  then show ?thesis using Translate_missing [of pk conf t] by simp
next
  case False
  then show ?thesis
    using Translate_present [of pk conf t] Translate_present_returns [of pk conf t]
    by auto
qed

theorem Translate_outcome_witness:
  "\<not> keyMissing example_translate_packages (Some example_conf) \<and>
   volumeIdConfigured example_translate_packages (Some example_conf) \<and>
   Translate example_translate_packages example_translator (Some example_conf) =
     Returns
       (Some (default_config\<lparr>RefreshTagsInterval := 0, RefreshVolumesInterval := 300000000000,
                EC2MetadataTags := [''InstanceId''], EBSDeviceKeys := [''*''],
                DiskDeviceTagKey := ''device'',
                MiddlewareID := Some \<lparr>ID_Type = ''agenthealth'', ID_Name = ''statuscode''\<rparr>,
                IMDSRetries := 1\<rparr>), None) \<and>
   Translate example_translate_packages example_translator None =
     Returns (None, Some (MissingKeyError \<lparr>ID_Type = ''ec2tagger'', ID_Name = []\<rparr>
                            ''metrics::append_dimensions'')) \<and>
   Translate example_translate_packages example_translator (Some []) =
     Returns (None, Some (MissingKeyError \<lparr>ID_Type = ''ec2tagger'', ID_Name = []\<rparr>
                            ''metrics::append_dimensions''))"
proof -
  note f = example_translate_fields
  have k: "Ec2taggerKey example_translate_packages = ''metrics::append_dimensions''"
    by (simp add: Ec2taggerKey_def f)
  have v: "volumeIdKey example_translate_packages =
             ''metrics::metrics_collected::disk::append_dimensions::VolumeId''"
    by (simp add: volumeIdKey_def f)
  have m: "\<not> keyMissing example_translate_packages (Some example_conf)"
    by (simp add: keyMissing_def k f example_conf_def)
  have c: "volumeIdConfigured example_translate_packages (Some example_conf)"
    by (simp add: volumeIdConfigured_def v f example_conf_def)
  have n: "keyMissing example_translate_packages None"
    by (simp add: keyMissing_def)
  have e: "keyMissing example_translate_packages (Some [])"
    by (simp add: keyMissing_def k f)
  have i: "ID example_translator = \<lparr>ID_Type = ''ec2tagger'', ID_Name = []\<rparr>"
    by (simp add: ID_def example_translator_def)
  have g: "Translate example_translate_packages example_translator (Some example_conf) =
     Returns
       (Some (default_config\<lparr>RefreshTagsInterval := 0, RefreshVolumesInterval := 300000000000,
                EC2MetadataTags := [''InstanceId''], EBSDeviceKeys := [''*''],
                DiskDeviceTagKey := ''device'',
                MiddlewareID := Some \<lparr>ID_Type = ''agenthealth'', ID_Name = ''statuscode''\<rparr>,
                IMDSRetries := 1\<rparr>), None)"
    by (simp add: Translate_def k v f Let_def example_translator_def example_conf_def
          default_config_def Minute_def)
  show ?thesis
    using Translate_outcome [of example_translate_packages example_translator None]
          Translate_outcome [of example_translate_packages example_translator "Some []"]
          Translate_outcome [of example_translate_packages example_translator "Some example_conf"]
          m c n e g k i
    by simp
qed

end
